theory Spec2Isabelle
  imports Main "HOL-Library.AList" "HOL-Library.Char_ord" "HOL-Library.List_Lexorder"
begin

section \<open>Python values and exceptions\<close>

text \<open>
  The table-of-contents extension (\<^verbatim>\<open>jupyter_book/toc.py\<close>) works on what
  \<^verbatim>\<open>yaml.safe_load\<close> returns: nested lists and dicts with scalar leaves. A dict
  is an association list in insertion order, as a Python dict is; \<^verbatim>\<open>d.get(k)\<close> is
  \<open>map_of d k\<close>. Every \<^verbatim>\<open>raise\<close> of the source and every exception of the Python
  runtime the source can run into is a value of \<open>error\<close>.
\<close>

datatype error =
    ValueError
  | TypeError
  | AttributeError
  | KeyError
  | IndexError
  | UnboundLocalError
  | ImportError
  | FileNotFoundError string

datatype yval =
    YNone
  | YBool bool
  | YInt int
  | YStr string
  | YList "yval list"
  | YDict "(string \<times> yval) list"

text \<open>\<^verbatim>\<open>d.get(key, default)\<close>.\<close>

definition dict_get :: "(string \<times> yval) list \<Rightarrow> string \<Rightarrow> yval \<Rightarrow> yval" where
  "dict_get d k dflt = (case map_of d k of None \<Rightarrow> dflt | Some v \<Rightarrow> v)"

text \<open>Python truth value of a loaded value (\<^verbatim>\<open>if not x\<close>, \<^verbatim>\<open>if name\<close>).\<close>

fun truthy :: "yval \<Rightarrow> bool" where
  "truthy YNone = False"
| "truthy (YBool b) = b"
| "truthy (YInt i) = (i \<noteq> 0)"
| "truthy (YStr s) = (s \<noteq> [])"
| "truthy (YList xs) = (xs \<noteq> [])"
| "truthy (YDict d) = (d \<noteq> [])"

section \<open>The part of \<^verbatim>\<open>pathlib\<close> the extension calls\<close>

text \<open>
  \<^verbatim>\<open>Path\<close> is CPython's \<^verbatim>\<open>PurePosixPath\<close> (the flavour whose separator is
  \<^verbatim>\<open>/\<close> and whose drive is always empty). A path object is its root
  (\<^verbatim>\<open>''\<close>, \<^verbatim>\<open>'/'\<close> or \<^verbatim>\<open>'//'\<close>) and its list \<^verbatim>\<open>_parts\<close>, which starts with the
  root when there is one.
\<close>

datatype ppath = PPath (root: string) (parts: "string list")

text \<open>\<^verbatim>\<open>s.split(c)\<close> for a one-character separator.\<close>

fun split_sep :: "char \<Rightarrow> string \<Rightarrow> string list" where
  "split_sep c [] = [[]]"
| "split_sep c (x # xs) =
     (if x = c then [] # split_sep c xs
      else (case split_sep c xs of
              [] \<Rightarrow> [[x]]
            | y # ys \<Rightarrow> (x # y) # ys))"

text \<open>\<^verbatim>\<open>sep.join(xs)\<close>.\<close>

fun join :: "string \<Rightarrow> string list \<Rightarrow> string" where
  "join sep [] = []"
| "join sep [x] = x"
| "join sep (x # y # ys) = x @ sep @ join sep (y # ys)"

text \<open>
  \<^verbatim>\<open>_PosixFlavour.splitroot\<close>: exactly two leading slashes are kept as the root
  \<^verbatim>\<open>//\<close>, any other number of them is the root \<^verbatim>\<open>/\<close>.
\<close>

definition splitroot :: "string \<Rightarrow> string \<times> string" where
  "splitroot part =
     (if part \<noteq> [] \<and> hd part = CHR ''/'' then
        (let stripped_part = dropWhile (\<lambda>c. c = CHR ''/'') part
         in if length part - length stripped_part = 2
            then (''//'', stripped_part)
            else (''/'', stripped_part))
      else ([], part))"

text \<open>
  \<^verbatim>\<open>_Flavour.parse_parts\<close> walks the arguments from the last to the first and stops
  at the first one that has a root. \<open>parse_rev\<close> takes the arguments in that
  (reversed) order and returns the parsed components reversed, as the source
  collects them before its final \<^verbatim>\<open>parsed.reverse()\<close>.
\<close>

definition components :: "string \<Rightarrow> string list" where
  "components rel =
     (if CHR ''/'' \<in> set rel
      then filter (\<lambda>x. x \<noteq> [] \<and> x \<noteq> ''.'') (split_sep CHR ''/'' rel)
      else (if rel \<noteq> [] \<and> rel \<noteq> ''.'' then [rel] else []))"

fun parse_rev :: "string list \<Rightarrow> string \<times> string list" where
  "parse_rev [] = ([], [])"
| "parse_rev (part # rest) =
     (if part = [] then parse_rev rest
      else (case splitroot part of
              (rt, rel) \<Rightarrow>
                if rt \<noteq> [] then (rt, rev (components rel) @ [rt])
                else (case parse_rev rest of
                        (rt', parsed) \<Rightarrow> (rt', rev (components rel) @ parsed))))"

definition parse_parts :: "string list \<Rightarrow> ppath" where
  "parse_parts args = (case parse_rev (rev args) of (rt, parsed) \<Rightarrow> PPath rt (rev parsed))"

text \<open>\<^verbatim>\<open>Path(s)\<close> and \<^verbatim>\<open>Path(*parts)\<close>.\<close>

definition Path :: "string \<Rightarrow> ppath" where
  "Path s = parse_parts [s]"

text \<open>\<^verbatim>\<open>str(p)\<close>: the empty path prints as a dot.\<close>

definition str :: "ppath \<Rightarrow> string" where
  "str p =
     (let s = (if root p \<noteq> [] then root p @ join ''/'' (tl (parts p))
               else join ''/'' (parts p))
      in if s = [] then ''.'' else s)"

text \<open>\<^verbatim>\<open>p.name\<close>: empty when the path is only a root or has no component.\<close>

definition name :: "ppath \<Rightarrow> string" where
  "name p =
     (if length (parts p) = (if root p \<noteq> [] then 1 else 0) then []
      else last (parts p))"

text \<open>\<^verbatim>\<open>s.rfind(c)\<close>: the index of the last occurrence, or \<open>-1\<close>.\<close>

fun rfind :: "char \<Rightarrow> string \<Rightarrow> int" where
  "rfind c [] = - 1"
| "rfind c (x # xs) =
     (let r = rfind c xs
      in if 0 \<le> r then r + 1 else if x = c then 0 else - 1)"

text \<open>
  \<^verbatim>\<open>p.suffix\<close>: from the last dot of the name on, unless that dot is the first or
  the last character of the name.
\<close>

definition suffix_of :: "string \<Rightarrow> string" where
  "suffix_of nm =
     (let i = rfind CHR ''.'' nm
      in if 0 < i \<and> i < int (length nm) - 1 then drop (nat i) nm else [])"

definition suffix :: "ppath \<Rightarrow> string" where
  "suffix p = suffix_of (name p)"

text \<open>
  \<^verbatim>\<open>p.with_suffix(suffix)\<close>. It raises \<^verbatim>\<open>ValueError\<close> for a suffix that holds a
  separator, that does not start with a dot or that is a lone dot, and for a path
  whose name is empty.
\<close>

definition with_suffix :: "ppath \<Rightarrow> string \<Rightarrow> error + ppath" where
  "with_suffix p sfx =
     (if CHR ''/'' \<in> set sfx then Inl ValueError
      else if (sfx \<noteq> [] \<and> hd sfx \<noteq> CHR ''.'') \<or> sfx = ''.'' then Inl ValueError
      else (let nm = name p
            in if nm = [] then Inl ValueError
               else (let old_suffix = suffix p;
                         nm' = (if old_suffix = [] then nm @ sfx
                                else take (length nm - length old_suffix) nm @ sfx)
                     in Inr (PPath (root p) (butlast (parts p) @ [nm'])))))"

text \<open>\<^verbatim>\<open>p.parent\<close>.\<close>

definition parent :: "ppath \<Rightarrow> ppath" where
  "parent p =
     (if length (parts p) = 1 \<and> root p \<noteq> [] then p
      else PPath (root p) (butlast (parts p)))"

section \<open>Path keys\<close>

text \<open>
  \<^verbatim>\<open>_no_suffix(path)\<close>: a string loses the suffix of its last component; any other
  value (\<^verbatim>\<open>None\<close> for a record without a path) is returned as it is.
\<close>

definition no_suffix_str :: "string \<Rightarrow> error + string" where
  "no_suffix_str path =
     (case with_suffix (Path path) [] of
        Inl e \<Rightarrow> Inl e
      | Inr p \<Rightarrow> Inr (str p))"

fun no_suffix :: "yval \<Rightarrow> error + yval" where
  "no_suffix (YStr path) =
     (case no_suffix_str path of
        Inl e \<Rightarrow> Inl e
      | Inr s \<Rightarrow> Inr (YStr s))"
| "no_suffix v = Inr v"

section \<open>Lookup in the tree\<close>

text \<open>
  \<^verbatim>\<open>find_name(pages, name)\<close>. A dict is wrapped in a list; \<open>find_loop\<close> is the
  \<^verbatim>\<open>for page in pages\<close> loop. The result \<open>Inr None\<close> is Python's \<^verbatim>\<open>None\<close>,
  returned when the loop ends without a match. The remaining equations are what the
  Python runtime does with a value of another type: iterating a non-empty string
  yields strings, which have no \<^verbatim>\<open>get\<close>; \<^verbatim>\<open>None\<close> and numbers are not iterable.
\<close>

function find_name :: "yval \<Rightarrow> string \<Rightarrow> error + yval option"
  and find_loop :: "yval list \<Rightarrow> string \<Rightarrow> error + yval option" where
  "find_name (YDict d) nm = find_loop [YDict d] nm"
| "find_name (YList ps) nm = find_loop ps nm"
| "find_name (YStr s) nm = (if s = [] then Inr None else Inl AttributeError)"
| "find_name YNone nm = Inl TypeError"
| "find_name (YBool b) nm = Inl TypeError"
| "find_name (YInt i) nm = Inl TypeError"
| "find_loop [] nm = Inr None"
| "find_loop (YDict d # rest) nm =
     (case no_suffix (dict_get d ''path'' YNone) of
        Inl e \<Rightarrow> Inl e
      | Inr k \<Rightarrow>
          if k = YStr nm then Inr (Some (YDict d))
          else (case find_name (dict_get d ''sections'' (YList [])) nm of
                  Inl e \<Rightarrow> Inl e
                | Inr (Some page) \<Rightarrow> Inr (Some page)
                | Inr None \<Rightarrow> find_loop rest nm))"
| "find_loop (YNone # rest) nm = Inl AttributeError"
| "find_loop (YBool b # rest) nm = Inl AttributeError"
| "find_loop (YInt i # rest) nm = Inl AttributeError"
| "find_loop (YStr s # rest) nm = Inl AttributeError"
| "find_loop (YList xs # rest) nm = Inl AttributeError"
  by pat_completeness auto
termination
proof -
  have sz: "map_of d k = Some v \<Longrightarrow> size v < size (YDict d)"
    for d :: "(string \<times> yval) list" and k v
    by (induction d) (auto split: if_splits)
  have dg: "size (dict_get d k (YList [])) \<le> size (YDict d)" for d k
    using sz [of d k] by (cases "map_of d k") (auto simp: dict_get_def)
  show ?thesis
    apply (relation "measures
      [\<lambda>x. case x of Inl (v, _) \<Rightarrow> size v | Inr (ps, _) \<Rightarrow> sum_list (map size ps),
       \<lambda>x. case x of Inl (v, _) \<Rightarrow> (case v of YDict _ \<Rightarrow> 2 | _ \<Rightarrow> 0)
                    | Inr (ps, _) \<Rightarrow> length ps]")
    apply simp
    apply simp
    subgoal for ps nm by (induction ps) auto
    subgoal for d rest nm x2
      using dg [of d "''sections''"] sz [of d "''sections''"]
      by (auto simp: dict_get_def split: option.splits yval.splits)
    subgoal by simp
    done
qed

section \<open>Loading the manifest\<close>

text \<open>
  The Sphinx configuration values the extension reads and writes.
\<close>

record config =
  globaltoc_path :: yval
  globaltoc :: yval
  master_doc :: yval

text \<open>\<^verbatim>\<open>obj[key] = value\<close> and \<^verbatim>\<open>obj[key]\<close> for a string key.\<close>

fun setitem :: "yval \<Rightarrow> string \<Rightarrow> yval \<Rightarrow> error + yval" where
  "setitem (YDict d) k v = Inr (YDict (AList.update k v d))"
| "setitem obj k v = Inl TypeError"

fun getitem :: "yval \<Rightarrow> string \<Rightarrow> error + yval" where
  "getitem (YDict d) k = (case map_of d k of None \<Rightarrow> Inl KeyError | Some v \<Rightarrow> Inr v)"
| "getitem obj k = Inl TypeError"

text \<open>
  Lines 109 to 113: the value bound to \<^verbatim>\<open>toc_updated\<close>. When the manifest is not
  a list the name is never bound and line 114 raises \<^verbatim>\<open>UnboundLocalError\<close>.
\<close>

fun toc_updated :: "yval \<Rightarrow> error + yval" where
  "toc_updated (YList []) = Inl IndexError"
| "toc_updated (YList (r # rs)) =
     (if length (r # rs) > 1 then setitem r ''sections'' (YList rs) else Inr r)"
| "toc_updated toc = Inl UnboundLocalError"

text \<open>
  \<^verbatim>\<open>update_indexname(app, config)\<close>. \<open>read_manifest\<close> stands for reading the file
  at the configured path and \<^verbatim>\<open>yaml.safe_load\<close> of its text. An exception leaves
  the hook, so no configuration is returned for it.
\<close>

definition update_indexname :: "(string \<Rightarrow> error + yval) \<Rightarrow> config \<Rightarrow> error + config" where
  "update_indexname read_manifest cfg =
     (if \<not> truthy (globaltoc_path cfg) then Inr cfg
      else (case globaltoc_path cfg of
              YStr p \<Rightarrow>
                (case read_manifest p of
                   Inl e \<Rightarrow> Inl e
                 | Inr toc \<Rightarrow>
                     (case toc_updated toc of
                        Inl e \<Rightarrow> Inl e
                      | Inr tu \<Rightarrow>
                          (case getitem tu ''path'' of
                             Inl e \<Rightarrow> Inl e
                           | Inr pth \<Rightarrow>
                               (case no_suffix pth of
                                  Inl e \<Rightarrow> Inl e
                                | Inr md \<Rightarrow> Inr (cfg\<lparr>globaltoc := tu, master_doc := md\<rparr>)))))
            | _ \<Rightarrow> Inl TypeError))"

section \<open>Injecting the toctree into a page\<close>

text \<open>
  What \<^verbatim>\<open>add_toctree\<close> takes from outside this repository: Sphinx's
  \<^verbatim>\<open>app.env.doc2path(docname, base=None)\<close>, \<^verbatim>\<open>os.path.relpath\<close> (whose first
  argument is whatever the manifest holds under \<^verbatim>\<open>path\<close>), the text an f-string
  gives for a value that is not a string, and \<^verbatim>\<open>nbformat\<close>'s reader and writer.
\<close>

datatype cell = MarkdownCell string | OtherCell string

record notebook =
  cells :: "cell list"
  nb_meta :: string

record outside =
  doc2path :: "string \<Rightarrow> string"
  relpath :: "yval \<Rightarrow> string \<Rightarrow> error + string"
  fmt_other :: "yval \<Rightarrow> string"
  nbf_reads :: "string \<Rightarrow> error + notebook"
  nbf_writes :: "notebook \<Rightarrow> string"

definition nl :: string where
  "nl = [CHR 0x0A]"

text \<open>\<^verbatim>\<open>f"{v}"\<close>.\<close>

definition fmt :: "outside \<Rightarrow> yval \<Rightarrow> string" where
  "fmt out v = (case v of YStr s \<Rightarrow> s | _ \<Rightarrow> fmt_other out v)"

text \<open>
  What a \<^verbatim>\<open>for\<close> loop or a comprehension iterates over: the items of a list, the
  keys of a dict, the characters of a string; anything else is not iterable.
\<close>

fun py_iter :: "yval \<Rightarrow> error + yval list" where
  "py_iter (YList xs) = Inr xs"
| "py_iter (YDict d) = Inr (map (\<lambda>kv. YStr (fst kv)) d)"
| "py_iter (YStr s) = Inr (map (\<lambda>c. YStr [c]) s)"
| "py_iter v = Inl TypeError"

text \<open>Line 50: \<^verbatim>\<open>[(ii.get("path"), ii.get("name")) for ii in ...]\<close>.\<close>

fun section_pairs :: "yval list \<Rightarrow> error + (yval \<times> yval) list" where
  "section_pairs [] = Inr []"
| "section_pairs (YDict d # rest) =
     (case section_pairs rest of
        Inl e \<Rightarrow> Inl e
      | Inr ps \<Rightarrow> Inr ((dict_get d ''path'' YNone, dict_get d ''name'' YNone) # ps))"
| "section_pairs (v # rest) = Inl AttributeError"

text \<open>Lines 54 to 63: one entry of the toctree for each section.\<close>

fun section_entries :: "outside \<Rightarrow> yval \<Rightarrow> (yval \<times> yval) list \<Rightarrow> error + string list" where
  "section_entries out page [] = Inr []"
| "section_entries out page ((path_sec, nm) # rest) =
     (case getitem page ''path'' of
        Inl e \<Rightarrow> Inl e
      | Inr (YStr pp) \<Rightarrow>
          (case relpath out path_sec (str (parent (Path pp))) of
             Inl e \<Rightarrow> Inl e
           | Inr path_sec' \<Rightarrow>
               (let this_section =
                      (if truthy nm then fmt out nm @ '' <'' @ path_sec' @ ''>''
                       else path_sec')
                in case section_entries out page rest of
                     Inl e \<Rightarrow> Inl e
                   | Inr es \<Rightarrow> Inr (this_section # es)))
      | Inr _ \<Rightarrow> Inl TypeError)"

text \<open>Lines 66 to 69: the options block.\<close>

definition options_block :: "outside \<Rightarrow> yval \<Rightarrow> error + string" where
  "options_block out page =
     (case page of
        YDict d \<Rightarrow>
          (let options = dict_get d ''options'' (YList []);
               options' = (case options of YStr s \<Rightarrow> YList [options] | _ \<Rightarrow> options)
           in case py_iter options' of
                Inl e \<Rightarrow> Inl e
              | Inr os \<Rightarrow> Inr (join nl (map (\<lambda>ii. '':'' @ fmt out ii @ '':'') os)))
      | _ \<Rightarrow> Inl AttributeError)"

text \<open>
  Lines 74 to 87: the dedented template with both fields filled in.
\<close>

definition toctree_text :: "string \<Rightarrow> string list \<Rightarrow> string" where
  "toctree_text options sections =
     nl @ ''```{toctree}'' @ nl @ '':hidden:'' @ nl @ '':titlesonly:'' @ nl @ options @ nl
     @ nl @ join nl sections @ nl @ ''```'' @ nl"

text \<open>
  Lines 49 to 87. \<open>None\<close> is the early \<^verbatim>\<open>return\<close> for a page without sections.
\<close>

definition directive :: "outside \<Rightarrow> yval \<Rightarrow> error + string option" where
  "directive out page =
     (case page of
        YDict d \<Rightarrow>
          (case py_iter (dict_get d ''sections'' (YList [])) of
             Inl e \<Rightarrow> Inl e
           | Inr secs \<Rightarrow>
               (case section_pairs secs of
                  Inl e \<Rightarrow> Inl e
                | Inr sections \<Rightarrow>
                    if length sections = 0 then Inr None
                    else (case section_entries out page sections of
                            Inl e \<Rightarrow> Inl e
                          | Inr entries \<Rightarrow>
                              (case options_block out page of
                                 Inl e \<Rightarrow> Inl e
                               | Inr options \<Rightarrow> Inr (Some (toctree_text options entries))))))
      | _ \<Rightarrow> Inl AttributeError)"

text \<open>
  Lines 88 to 99: the new value of \<^verbatim>\<open>source[0]\<close>, chosen by the suffix of the
  document's path.
\<close>

definition inject :: "outside \<Rightarrow> string \<Rightarrow> string \<Rightarrow> string \<Rightarrow> error + string" where
  "inject out suff toctree source =
     (if suff = ''.md'' then Inr (source @ toctree @ nl)
      else if suff = ''.ipynb'' then
        (case nbf_reads out source of
           Inl e \<Rightarrow> Inl e
         | Inr ntbk \<Rightarrow>
             (let md = MarkdownCell toctree
              in Inr (nbf_writes out (ntbk\<lparr>cells := cells ntbk @ [md]\<rparr>))))
      else Inl ValueError)"

text \<open>The message of line 47.\<close>

definition not_found_message :: "string \<Rightarrow> string" where
  "not_found_message path =
     ''The following path in your table of contents couldn't be found:'' @ nl @ nl @ path
     @ ''.'' @ nl @ nl
     @ ''Double check your `_toc.yml` file to make sure the paths are correct.''"

text \<open>
  \<^verbatim>\<open>add_toctree(app, docname, source)\<close>: the result is the content of
  \<^verbatim>\<open>source[0]\<close> when the hook returns.
\<close>

definition add_toctree :: "outside \<Rightarrow> config \<Rightarrow> string \<Rightarrow> string \<Rightarrow> error + string" where
  "add_toctree out cfg docname source =
     (if \<not> truthy (globaltoc_path cfg) then Inr source
      else (let path = doc2path out docname;
                toc = globaltoc cfg
            in case no_suffix_str path of
                 Inl e \<Rightarrow> Inl e
               | Inr key \<Rightarrow>
                   (case find_name toc key of
                      Inl e \<Rightarrow> Inl e
                    | Inr None \<Rightarrow> Inl (FileNotFoundError (not_found_message path))
                    | Inr (Some page) \<Rightarrow>
                        (case directive out page of
                           Inl e \<Rightarrow> Inl e
                         | Inr None \<Rightarrow> Inr source
                         | Inr (Some toctree) \<Rightarrow>
                             inject out (suffix (Path path)) toctree source))))"

section \<open>Generating a manifest from a content folder\<close>

text \<open>
  The file system as \<^verbatim>\<open>build_toc\<close> sees it: a directory is the list of its
  entries in the order the operating system lists them (the order
  \<^verbatim>\<open>os.scandir\<close> yields, which \<^verbatim>\<open>pathlib\<close>'s \<^verbatim>\<open>glob\<close> keeps).
\<close>

datatype fsnode = File | Dir "(string \<times> fsnode) list"

definition SUPPORTED_FILE_SUFFIXES :: "string list" where
  "SUPPORTED_FILE_SUFFIXES = [''.ipynb'', ''.md'', ''.markdown'', ''.Rmd'', ''.py'', ''#BREAK#'']"

text \<open>\<^verbatim>\<open>needle in haystack\<close> for strings, and \<^verbatim>\<open>s.endswith(sfx)\<close>.\<close>

fun contains :: "string \<Rightarrow> string \<Rightarrow> bool" where
  "contains needle [] = (needle = [])"
| "contains needle (c # cs) =
     (take (length needle) (c # cs) = needle \<or> contains needle cs)"

definition endswith :: "string \<Rightarrow> string \<Rightarrow> bool" where
  "endswith s sfx = (length sfx \<le> length s \<and> drop (length s - length sfx) s = sfx)"

text \<open>\<^verbatim>\<open>parent_path._make_child_relpath(name)\<close>.\<close>

definition make_child :: "ppath \<Rightarrow> string \<Rightarrow> ppath" where
  "make_child p n = PPath (root p) (parts p @ [n])"

text \<open>
  \<^verbatim>\<open>directory.glob("*" + suffix)\<close>: the entries of the directory, files and
  directories alike, whose name matches. The suffixes hold no wildcard, so a name
  matches when it ends with the suffix.
\<close>

definition glob_star :: "ppath \<Rightarrow> (string \<times> fsnode) list \<Rightarrow> string \<Rightarrow> ppath list" where
  "glob_star dir entries sfx = map (\<lambda>e. make_child dir (fst e)) (filter (\<lambda>e. endswith (fst e) sfx) entries)"

text \<open>
  \<^verbatim>\<open>_RecursiveWildcardSelector._iterate_directories\<close>: the directory, then each
  subdirectory in listing order, depth first.
\<close>

fun iterate_directories :: "ppath \<Rightarrow> fsnode \<Rightarrow> (ppath \<times> (string \<times> fsnode) list) list"
  and iterate_entries :: "ppath \<Rightarrow> (string \<times> fsnode) list \<Rightarrow> (ppath \<times> (string \<times> fsnode) list) list" where
  "iterate_directories p File = []"
| "iterate_directories p (Dir es) = (p, es) # iterate_entries p es"
| "iterate_entries p [] = []"
| "iterate_entries p ((n, nd) # rest) =
     iterate_directories (make_child p n) nd @ iterate_entries p rest"

text \<open>A path is yielded once: later repetitions are dropped.\<close>

fun dedup :: "'a list \<Rightarrow> 'a list \<Rightarrow> 'a list" where
  "dedup yielded [] = []"
| "dedup yielded (p # ps) =
     (if p \<in> set yielded then dedup yielded ps else p # dedup (p # yielded) ps)"

text \<open>\<^verbatim>\<open>directory.rglob("*" + suffix)\<close>.\<close>

definition rglob_star :: "ppath \<Rightarrow> fsnode \<Rightarrow> string \<Rightarrow> ppath list" where
  "rglob_star dir node sfx =
     dedup [] (concat (map (\<lambda>pe. glob_star (fst pe) (snd pe) sfx) (iterate_directories dir node)))"

text \<open>\<^verbatim>\<open>_list_supported_files(directory, exclude, rglob)\<close>.\<close>

definition list_supported_files :: "ppath \<Rightarrow> fsnode \<Rightarrow> string list \<Rightarrow> bool \<Rightarrow> ppath list" where
  "list_supported_files directory node exclude rglob =
     concat (map (\<lambda>sfx.
        filter (\<lambda>ipath. name ipath \<notin> set exclude \<and> \<not> contains ''ipynb_checkpoints'' (str ipath))
          (if rglob then rglob_star directory node sfx
           else (case node of Dir es \<Rightarrow> glob_star directory es sfx | File \<Rightarrow> [])))
       SUPPORTED_FILE_SUFFIXES)"

text \<open>
  \<^verbatim>\<open>s.split(sep)\<close> for a separator that is a string: \<^verbatim>\<open>ValueError\<close> for the empty
  separator, otherwise the pieces between the occurrences found from left to right.
\<close>

function split_acc :: "string \<Rightarrow> string \<Rightarrow> string \<Rightarrow> string list" where
  "split_acc sep cur [] = [cur]"
| "split_acc sep cur (x # xs) =
     (if sep \<noteq> [] \<and> take (length sep) (x # xs) = sep
      then cur # split_acc sep [] (drop (length sep) (x # xs))
      else split_acc sep (cur @ [x]) xs)"
  by pat_completeness auto
termination
  by (relation "measure (\<lambda>(sep, cur, s). length s)") (auto simp: neq_Nil_conv)

definition py_split :: "string \<Rightarrow> string \<Rightarrow> error + string list" where
  "py_split s sep = (if sep = [] then Inl ValueError else Inr (split_acc sep [] s))"

text \<open>
  Whether \<^verbatim>\<open>int(s)\<close> returns: blanks around, an optional sign, then decimal digits
  with single underscores between them. Strings are taken as ASCII.
\<close>

definition is_space :: "char \<Rightarrow> bool" where
  "is_space c = (c \<in> set [CHR 0x09, CHR 0x0A, CHR 0x0B, CHR 0x0C, CHR 0x0D,
                           CHR 0x1C, CHR 0x1D, CHR 0x1E, CHR 0x1F, CHR 0x20])"

definition is_digit :: "char \<Rightarrow> bool" where
  "is_digit c = (c \<in> set ''0123456789'')"

fun digits_ok :: "bool \<Rightarrow> string \<Rightarrow> bool" where
  "digits_ok prev [] = prev"
| "digits_ok prev (c # cs) =
     (if is_digit c then digits_ok True cs
      else if c = CHR ''_'' then prev \<and> digits_ok False cs
      else False)"

definition int_parses :: "string \<Rightarrow> bool" where
  "int_parses s =
     (let t = rev (dropWhile is_space (rev (dropWhile is_space s)));
          u = (case t of c # cs \<Rightarrow> if c = CHR ''+'' \<or> c = CHR ''-'' then cs else t | [] \<Rightarrow> t)
      in digits_ok False u)"

text \<open>\<^verbatim>\<open>s.capitalize()\<close> on ASCII letters.\<close>

definition to_upper :: "char \<Rightarrow> char" where
  "to_upper c =
     (case map_of (zip ''abcdefghijklmnopqrstuvwxyz'' ''ABCDEFGHIJKLMNOPQRSTUVWXYZ'') c of
        Some u \<Rightarrow> u | None \<Rightarrow> c)"

definition to_lower :: "char \<Rightarrow> char" where
  "to_lower c =
     (case map_of (zip ''ABCDEFGHIJKLMNOPQRSTUVWXYZ'' ''abcdefghijklmnopqrstuvwxyz'') c of
        Some l \<Rightarrow> l | None \<Rightarrow> c)"

fun capitalize :: "string \<Rightarrow> string" where
  "capitalize [] = []"
| "capitalize (c # cs) = to_upper c # map to_lower cs"

text \<open>
  \<^verbatim>\<open>_filename_to_title(filename, split_char)\<close>. The \<^verbatim>\<open>try\<close> covers only the
  \<^verbatim>\<open>int\<close> call and the slicing; \<^verbatim>\<open>with_suffix\<close> and \<^verbatim>\<open>split\<close> are outside it.
\<close>

definition filename_to_title :: "string \<Rightarrow> string \<Rightarrow> error + string" where
  "filename_to_title filename split_char =
     (case with_suffix (Path filename) [] of
        Inl e \<Rightarrow> Inl e
      | Inr p \<Rightarrow>
          (case py_split (name p) split_char of
             Inl e \<Rightarrow> Inl e
           | Inr filename_parts \<Rightarrow>
               (let filename_parts' =
                      (if int_parses (hd filename_parts) \<and> length filename_parts > 1
                       then tl filename_parts else filename_parts)
                in Inr (join '' '' (map capitalize filename_parts')))))"

text \<open>
  Lines 206 and 207, 225 and 226: the path without its suffix and without its
  first part.
\<close>

definition rel_no_suffix :: "ppath \<Rightarrow> error + string" where
  "rel_no_suffix ipath =
     (case with_suffix ipath [] of
        Inl e \<Rightarrow> Inl e
      | Inr p \<Rightarrow> Inr (str (parse_parts (tl (parts p)))))"

text \<open>
  The two \<^verbatim>\<open>for ipath in ...\<close> loops, which differ in the key of the record they
  append to \<^verbatim>\<open>toc_pages\<close>.
\<close>

fun append_pages :: "string \<Rightarrow> ppath list \<Rightarrow> yval list \<Rightarrow> error + yval list" where
  "append_pages key [] toc_pages = Inr toc_pages"
| "append_pages key (ipath # rest) toc_pages =
     (case rel_no_suffix ipath of
        Inl e \<Rightarrow> Inl e
      | Inr p \<Rightarrow> append_pages key rest (toc_pages @ [YDict [(key, YStr p)]]))"

text \<open>Lines 211 and 212: the subdirectories of the content folder, sorted as paths.\<close>

definition subdirectories :: "ppath \<Rightarrow> (string \<times> fsnode) list \<Rightarrow> (ppath \<times> fsnode) list" where
  "subdirectories content_folder entries =
     sort_key (\<lambda>sub. parts (fst sub))
       (filter (\<lambda>sub. (case snd sub of Dir _ \<Rightarrow> True | File \<Rightarrow> False)
                      \<and> \<not> contains ''.ipynb_checkpoints'' (name (fst sub)))
          (map (\<lambda>e. (make_child content_folder (fst e), snd e)) entries))"

definition MARKER :: string where
  "MARKER = ''## REPLACE ##''"

text \<open>Lines 214 to 227: the loop over the subdirectories.\<close>

fun append_subdirs :: "string \<Rightarrow> (ppath \<times> fsnode) list \<Rightarrow> yval list \<Rightarrow> error + yval list" where
  "append_subdirs split_char [] toc_pages = Inr toc_pages"
| "append_subdirs split_char ((subdir, node) # rest) toc_pages =
     (let ipaths = list_supported_files subdir node [''LICENSE.md''] True
      in if length ipaths = 0 then append_subdirs split_char rest toc_pages
         else (case filename_to_title (name subdir) split_char of
                 Inl e \<Rightarrow> Inl e
               | Inr title \<Rightarrow>
                   (case append_pages ''url'' ipaths
                           (toc_pages @ [YStr MARKER, YDict [(''header'', YStr title)]]) of
                      Inl e \<Rightarrow> Inl e
                    | Inr toc_pages' \<Rightarrow> append_subdirs split_char rest toc_pages')))"

text \<open>
  Lines 195 to 227: the list \<^verbatim>\<open>toc_pages\<close> when the loops are done. \<open>fs\<close> gives
  what the operating system finds at a path.
\<close>

definition build_pages :: "(string \<Rightarrow> fsnode option) \<Rightarrow> string \<Rightarrow> string \<Rightarrow> error + yval list" where
  "build_pages fs content_folder split_char =
     (let cf = Path content_folder
      in case fs (str cf) of
           Some (Dir entries) \<Rightarrow>
             (case append_pages ''path''
                     (list_supported_files cf (Dir entries) [''LICENSE.md''] False) [] of
                Inl e \<Rightarrow> Inl e
              | Inr toc_pages \<Rightarrow>
                  append_subdirs split_char (subdirectories cf entries) toc_pages)
         | _ \<Rightarrow> Inl ValueError)"

text \<open>\<^verbatim>\<open>s.replace(old, new)\<close>.\<close>

function repl :: "string \<Rightarrow> string \<Rightarrow> string \<Rightarrow> string" where
  "repl old new [] = []"
| "repl old new (c # cs) =
     (if old \<noteq> [] \<and> take (length old) (c # cs) = old
      then new @ repl old new (drop (length old) (c # cs))
      else c # repl old new cs)"
  by pat_completeness auto
termination
  by (relation "measure (\<lambda>(old, new, s). length s)") (auto simp: neq_Nil_conv)

definition replace :: "string \<Rightarrow> string \<Rightarrow> string \<Rightarrow> string" where
  "replace old new s =
     (if old = [] then new @ concat (map (\<lambda>c. c # new) s) else repl old new s)"

text \<open>
  \<^verbatim>\<open>build_toc(content_folder, filename_split_char)\<close>. \<open>dump\<close> is
  \<^verbatim>\<open>yaml.safe_dump\<close>; \<open>ipython\<close> is the outcome of line 228, which imports IPython
  and opens an interactive shell: the exception it ends with, if any. In line 230
  \<^verbatim>\<open>out\<close> becomes a string, so the \<^verbatim>\<open>join\<close> of line 231 runs over its
  characters.
\<close>

definition build_toc ::
  "(string \<Rightarrow> fsnode option) \<Rightarrow> (yval \<Rightarrow> string) \<Rightarrow> error option \<Rightarrow> string \<Rightarrow> string \<Rightarrow> error + string" where
  "build_toc fs dump ipython content_folder filename_split_char =
     (case build_pages fs content_folder filename_split_char of
        Inl e \<Rightarrow> Inl e
      | Inr toc_pages \<Rightarrow>
          (case ipython of
             Some e \<Rightarrow> Inl e
           | None \<Rightarrow>
               (let out = replace (''- '' @ [CHR 0x27] @ MARKER @ [CHR 0x27]) [] (dump (YList toc_pages))
                in Inr (join nl (map (\<lambda>c. [c]) out)))))"

section \<open>The traversal order, for stating what the lookup returns\<close>

text \<open>
  The pages \<^verbatim>\<open>find_name\<close> looks at when nothing matches, in the order it looks at
  them, and the exception of the Python runtime that ends the walk, if one does:
  a page first, then the pages under its \<^verbatim>\<open>sections\<close>, then the pages after it.
  This follows the wording of the lookup's description (depth first, in order); it
  is compared with \<open>find_name\<close> below.
\<close>

function preorder :: "yval \<Rightarrow> yval list \<times> error option"
  and preorder_loop :: "yval list \<Rightarrow> yval list \<times> error option" where
  "preorder (YDict d) = preorder_loop [YDict d]"
| "preorder (YList ps) = preorder_loop ps"
| "preorder (YStr s) = ([], if s = [] then None else Some AttributeError)"
| "preorder YNone = ([], Some TypeError)"
| "preorder (YBool b) = ([], Some TypeError)"
| "preorder (YInt i) = ([], Some TypeError)"
| "preorder_loop [] = ([], None)"
| "preorder_loop (YDict d # rest) =
     (case preorder (dict_get d ''sections'' (YList [])) of
        (below, Some e) \<Rightarrow> (YDict d # below, Some e)
      | (below, None) \<Rightarrow>
          (case preorder_loop rest of
             (after, err) \<Rightarrow> (YDict d # below @ after, err)))"
| "preorder_loop (YNone # rest) = ([], Some AttributeError)"
| "preorder_loop (YBool b # rest) = ([], Some AttributeError)"
| "preorder_loop (YInt i # rest) = ([], Some AttributeError)"
| "preorder_loop (YStr s # rest) = ([], Some AttributeError)"
| "preorder_loop (YList xs # rest) = ([], Some AttributeError)"
  by pat_completeness auto
termination
proof -
  have sz: "map_of d k = Some v \<Longrightarrow> size v < size (YDict d)"
    for d :: "(string \<times> yval) list" and k v
    by (induction d) (auto split: if_splits)
  have dg: "size (dict_get d k (YList [])) \<le> size (YDict d)" for d k
    using sz [of d k] by (cases "map_of d k") (auto simp: dict_get_def)
  show ?thesis
    apply (relation "measures
      [\<lambda>x. case x of Inl v \<Rightarrow> size v | Inr ps \<Rightarrow> sum_list (map size ps),
       \<lambda>x. case x of Inl v \<Rightarrow> (case v of YDict _ \<Rightarrow> 2 | _ \<Rightarrow> 0)
                    | Inr ps \<Rightarrow> length ps]")
    apply simp
    apply simp
    subgoal for ps by (induction ps) auto
    subgoal for d rest
      using dg [of d "''sections''"] sz [of d "''sections''"]
      by (auto simp: dict_get_def split: option.splits yval.splits)
    subgoal by simp
    done
qed

text \<open>The key a page is compared by: its path without the suffix.\<close>

fun key_of :: "yval \<Rightarrow> error + yval" where
  "key_of (YDict d) = no_suffix (dict_get d ''path'' YNone)"
| "key_of v = Inl AttributeError"

text \<open>
  The first page of a list whose key is the name; an exception when a key cannot
  be computed before that, or when the walk itself ended with one.
\<close>

fun first_match :: "string \<Rightarrow> yval list \<Rightarrow> error option \<Rightarrow> error + yval option" where
  "first_match nm [] err = (case err of None \<Rightarrow> Inr None | Some e \<Rightarrow> Inl e)"
| "first_match nm (p # ps) err =
     (case key_of p of
        Inl e \<Rightarrow> Inl e
      | Inr k \<Rightarrow> if k = YStr nm then Inr (Some p) else first_match nm ps err)"

section \<open>Example inputs\<close>

text \<open>
  A stand-in for the outside world in which a document name is its own path,
  \<^verbatim>\<open>relpath\<close> returns a string path as it is, a notebook is read as one cell
  holding the source and written as the concatenation of its cells; and a
  configuration whose tree is one page with one section.
\<close>

definition example_outside :: outside where
  "example_outside =
     \<lparr>doc2path = (\<lambda>d. d),
      relpath = (\<lambda>v s. case v of YStr p \<Rightarrow> Inr p | _ \<Rightarrow> Inl TypeError),
      fmt_other = (\<lambda>v. []),
      nbf_reads = (\<lambda>s. Inr \<lparr>cells = [OtherCell s], nb_meta = []\<rparr>),
      nbf_writes = (\<lambda>nb. concat (map (\<lambda>c. case c of MarkdownCell t \<Rightarrow> t | OtherCell t \<Rightarrow> t)
                                   (cells nb)))\<rparr>"

definition example_config :: config where
  "example_config =
     \<lparr>globaltoc_path = YStr ''_toc.yml'',
      globaltoc = YDict [(''path'', YStr ''index''),
                         (''sections'', YList [YDict [(''path'', YStr ''a'')]])],
      master_doc = YStr ''index''\<rparr>"

text \<open>
  A manifest of three records whose first record declares a section of its own.
\<close>

definition example_manifest :: yval where
  "example_manifest =
     YList [YDict [(''path'', YStr ''intro.md''), (''sections'', YList [YDict [(''path'', YStr ''old'')]])],
            YDict [(''path'', YStr ''ch1'')], YDict [(''path'', YStr ''ch2.ipynb'')]]"

section \<open>The lookup is a first match in traversal order\<close>

lemma first_match_append:
  "first_match nm (xs @ ys) err =
     (case first_match nm xs None of
        Inl e \<Rightarrow> Inl e
      | Inr (Some p) \<Rightarrow> Inr (Some p)
      | Inr None \<Rightarrow> first_match nm ys err)"
  by (induction xs) (auto split: sum.splits)

lemma first_match_error:
  "first_match nm xs (Some e) =
     (case first_match nm xs None of
        Inl e' \<Rightarrow> Inl e'
      | Inr (Some p) \<Rightarrow> Inr (Some p)
      | Inr None \<Rightarrow> Inl e)"
  by (induction xs) (auto split: sum.splits)

lemma find_is_first_match:
  "find_name v nm = first_match nm (fst (preorder v)) (snd (preorder v))"
  "find_loop ps nm = first_match nm (fst (preorder_loop ps)) (snd (preorder_loop ps))"
proof (induction v nm and ps nm rule: find_name_find_loop.induct)
  case (8 d rest nm)
  show ?case
  proof (cases "no_suffix (dict_get d ''path'' YNone)")
    case (Inl e)
    then show ?thesis by (simp split: prod.splits option.splits)
  next
    case key: (Inr k)
    show ?thesis
    proof (cases "k = YStr nm")
      case True
      with key show ?thesis by (simp split: prod.splits option.splits)
    next
      case False
      note neq = this
      obtain below err where pb: "preorder (dict_get d ''sections'' (YList [])) = (below, err)"
        by (cases "preorder (dict_get d ''sections'' (YList []))")
      obtain after err' where pa: "preorder_loop rest = (after, err')"
        by (cases "preorder_loop rest")
      have fn: "find_name (dict_get d ''sections'' (YList [])) nm = first_match nm below err"
        using 8(1) [OF key neq] pb by simp
      show ?thesis
      proof (cases "err = None")
        case False
        then obtain e where "err = Some e" by auto
        with key neq fn pb show ?thesis
          by (simp add: first_match_error split: sum.splits option.splits)
      next
        case True
        note errN = this
        show ?thesis
        proof (cases "first_match nm below None = Inr None")
          case False
          with key neq fn pb pa errN show ?thesis
            by (simp add: first_match_append split: sum.splits option.splits)
        next
          case True
          have fnN: "find_name (dict_get d ''sections'' (YList [])) nm = Inr None"
            using fn errN True by simp
          have "find_loop rest nm = first_match nm after err'"
            using 8(2) [OF key neq fnN refl] pa by simp
          with True key neq fn pb pa errN show ?thesis
            by (simp add: first_match_append)
        qed
      qed
    qed
  qed
qed simp_all

section \<open>The order of the generated records\<close>

text \<open>
  Claim C5: the files directly under the content folder, and the files found in each
  subdirectory, are emitted in the sorted order of their names. The code does not do
  this, although the docstring of \<^verbatim>\<open>build_toc\<close> promises the alphanumeric sort of
  files and folders and line 211 does sort the subdirectories:
  \<^verbatim>\<open>_list_supported_files\<close> walks the suffixes in the order of
  \<^verbatim>\<open>SUPPORTED_FILE_SUFFIXES\<close> and keeps, for each suffix, the order in which the
  directory is listed. For a content folder that holds \<^verbatim>\<open>a.md\<close> and
  \<^verbatim>\<open>b.ipynb\<close> the record of \<^verbatim>\<open>b\<close> comes first, and for one listed as
  \<^verbatim>\<open>b.md\<close>, \<^verbatim>\<open>a.md\<close> the record of \<^verbatim>\<open>b\<close> comes first as well.
\<close>

theorem build_pages_files_not_sorted:
  "build_pages
     (\<lambda>p. if p = ''root'' then Some (Dir [(''a.md'', File), (''b.ipynb'', File)]) else None)
     ''root'' ''_''
   = Inr [YDict [(''path'', YStr ''b'')], YDict [(''path'', YStr ''a'')]]
   \<and> build_pages
     (\<lambda>p. if p = ''root'' then Some (Dir [(''b.md'', File), (''a.md'', File)]) else None)
     ''root'' ''_''
   = Inr [YDict [(''path'', YStr ''b'')], YDict [(''path'', YStr ''a'')]]"
  by code_simp

section \<open>Injection dispatches on the suffix\<close>

text \<open>
  Claim C9: injection dispatches purely on the suffix of the document's path. Once
  \<^verbatim>\<open>add_toctree\<close> has found the page and built the directive, the result is:
  for \<^verbatim>\<open>.md\<close> the source with the directive and a newline appended; for
  \<^verbatim>\<open>.ipynb\<close> the notebook read from the source, given one more markdown cell
  holding the directive as its last cell, and written again (or the reader's
  exception); for every other suffix \<^verbatim>\<open>ValueError\<close>, the exception the source
  raises for an unsupported format.
\<close>

theorem add_toctree_dispatch:
  assumes "truthy (globaltoc_path cfg)"
    and "no_suffix_str (doc2path out docname) = Inr key"
    and "find_name (globaltoc cfg) key = Inr (Some page)"
    and "directive out page = Inr (Some toctree)"
  shows "add_toctree out cfg docname source =
           (if suffix (Path (doc2path out docname)) = ''.md''
              then Inr (source @ toctree @ nl)
            else if suffix (Path (doc2path out docname)) = ''.ipynb''
              then (case nbf_reads out source of
                      Inl e \<Rightarrow> Inl e
                    | Inr ntbk \<Rightarrow>
                        Inr (nbf_writes out (ntbk\<lparr>cells := cells ntbk @ [MarkdownCell toctree]\<rparr>)))
            else Inl ValueError)"
  using assms by (simp add: add_toctree_def inject_def Let_def split: sum.splits)

text \<open>The three branches at the example page, for a markdown, a notebook and a reST document.\<close>

theorem add_toctree_dispatch_witness:
  "truthy (globaltoc_path example_config)
   \<and> find_name (globaltoc example_config) ''index'' = Inr (Some (globaltoc example_config))
   \<and> directive example_outside (globaltoc example_config) = Inr (Some (toctree_text [] [''a'']))
   \<and> add_toctree example_outside example_config ''index.md'' ''# T''
       = Inr (''# T'' @ toctree_text [] [''a''] @ nl)
   \<and> add_toctree example_outside example_config ''index.ipynb'' ''# T''
       = Inr (''# T'' @ toctree_text [] [''a''])
   \<and> add_toctree example_outside example_config ''index.rst'' ''# T'' = Inl ValueError"
proof -
  have h1: "truthy (globaltoc_path example_config)" by code_simp
  have h3: "find_name (globaltoc example_config) ''index'' = Inr (Some (globaltoc example_config))"
    by code_simp
  have h4: "directive example_outside (globaltoc example_config) = Inr (Some (toctree_text [] [''a'']))"
    by code_simp
  have k1: "no_suffix_str (doc2path example_outside ''index.md'') = Inr ''index''" by code_simp
  have k2: "no_suffix_str (doc2path example_outside ''index.ipynb'') = Inr ''index''" by code_simp
  have k3: "no_suffix_str (doc2path example_outside ''index.rst'') = Inr ''index''" by code_simp
  have s1: "suffix (Path (doc2path example_outside ''index.md'')) = ''.md''" by code_simp
  have s2: "suffix (Path (doc2path example_outside ''index.ipynb'')) = ''.ipynb''" by code_simp
  have s3: "suffix (Path (doc2path example_outside ''index.rst'')) = ''.rst''" by code_simp
  have r: "nbf_reads example_outside ''# T'' = Inr \<lparr>cells = [OtherCell ''# T''], nb_meta = []\<rparr>"
    by (simp add: example_outside_def)
  have w: "nbf_writes example_outside \<lparr>cells = [OtherCell ''# T'', MarkdownCell t], nb_meta = []\<rparr> = ''# T'' @ t" for t
    by (simp add: example_outside_def)
  show ?thesis
    using add_toctree_dispatch [OF h1 k1 h3 h4, of "''# T''"]
      add_toctree_dispatch [OF h1 k2 h3 h4, of "''# T''"]
      add_toctree_dispatch [OF h1 k3 h3 h4, of "''# T''"]
    by (simp add: h1 h3 h4 s1 s2 s3 r w)
qed

section \<open>Loading a list manifest\<close>

text \<open>
  Claim C4: when the manifest is a list of records, record 0 becomes the root; the
  records after it, if there are any, become the root's \<^verbatim>\<open>sections\<close> and replace
  whatever the first record declared under that key, every other key of record 0
  being kept; and \<^verbatim>\<open>master_doc\<close> is the path of that record without its suffix.
  The hypotheses say that the hook is enabled, that the manifest is a list whose
  first record is a dict with a \<^verbatim>\<open>path\<close>, and that this path has a key.
\<close>

theorem update_indexname_list:
  assumes "globaltoc_path cfg = YStr p" and "p \<noteq> []"
    and "read_manifest p = Inr (YList (YDict d # rs))"
    and "map_of d ''path'' = Some pth"
    and "no_suffix pth = Inr md"
  shows "\<exists>root_rec.
           update_indexname read_manifest cfg
             = Inr (cfg\<lparr>globaltoc := YDict root_rec, master_doc := md\<rparr>)
           \<and> (\<forall>k. k \<noteq> ''sections'' \<longrightarrow> map_of root_rec k = map_of d k)
           \<and> (rs \<noteq> [] \<longrightarrow> map_of root_rec ''sections'' = Some (YList rs))
           \<and> (rs = [] \<longrightarrow> root_rec = d)"
proof (cases "rs = []")
  case True
  with assms show ?thesis
    by (intro exI [of _ d]) (simp add: update_indexname_def)
next
  case False
  with assms show ?thesis
    by (intro exI [of _ "AList.update ''sections'' (YList rs) d"])
       (simp add: update_indexname_def update_conv')
qed

text \<open>The example manifest: the section declared by the first record is replaced.\<close>

theorem update_indexname_list_witness:
  "update_indexname (\<lambda>p. if p = ''_toc.yml'' then Inr example_manifest else Inl (FileNotFoundError p))
      example_config
   = Inr (example_config
           \<lparr>globaltoc := YDict [(''path'', YStr ''intro.md''),
                                (''sections'', YList [YDict [(''path'', YStr ''ch1'')],
                                                      YDict [(''path'', YStr ''ch2.ipynb'')]])],
            master_doc := YStr ''intro''\<rparr>)"
proof -
  let ?rm = "\<lambda>p. if p = ''_toc.yml'' then Inr example_manifest else Inl (FileNotFoundError p)"
  let ?d = "[(''path'', YStr ''intro.md''), (''sections'', YList [YDict [(''path'', YStr ''old'')]])]"
  let ?rs = "[YDict [(''path'', YStr ''ch1'')], YDict [(''path'', YStr ''ch2.ipynb'')]]"
  have h1: "globaltoc_path example_config = YStr ''_toc.yml''" by (simp add: example_config_def)
  have h2: "''_toc.yml'' \<noteq> []" by simp
  have h3: "?rm ''_toc.yml'' = Inr (YList (YDict ?d # ?rs))" by (simp add: example_manifest_def)
  have h4: "map_of ?d ''path'' = Some (YStr ''intro.md'')" by simp
  have h5: "no_suffix (YStr ''intro.md'') = Inr (YStr ''intro'')" by code_simp
  from update_indexname_list [where read_manifest = ?rm and cfg = example_config
      and p = "''_toc.yml''" and d = ?d and rs = ?rs, OF h1 h2 h3 h4 h5]
  obtain root_rec where
    r: "update_indexname ?rm example_config
          = Inr (example_config\<lparr>globaltoc := YDict root_rec, master_doc := YStr ''intro''\<rparr>)"
    by blast
  have "update_indexname ?rm example_config
          = Inr (example_config
           \<lparr>globaltoc := YDict [(''path'', YStr ''intro.md''),
                                (''sections'', YList [YDict [(''path'', YStr ''ch1'')],
                                                      YDict [(''path'', YStr ''ch2.ipynb'')]])],
            master_doc := YStr ''intro''\<rparr>)"
    by code_simp
  with r show ?thesis by simp
qed

end
